theory Spec2Isabelle
  imports Main "HOL-Library.Word"
begin

section \<open>GKE upgrade notices relayed to Slack: the Cloud Function of main.py\<close>

text \<open>
  The module has three functions. \<open>is_allowed_type\<close> and \<open>create_slack_message\<close> are pure;
  \<open>main\<close> reads the Pub/Sub event and the process environment, decodes the payload, filters
  on the event type and posts to a Slack webhook.

  Python values are embedded as follows.
  \<^item> \<open>str\<close> is \<^typ>\<open>string\<close>; \<open>bytes\<close> is a list of 8-bit words.
  \<^item> The attributes \<open>dict\<close> is an association list in insertion order: iterating a Python
    dictionary yields its keys in that order, and \<open>d[k]\<close> is a lookup that raises
    \<open>KeyError\<close> on an absent key. A Python dictionary holds each key once
    (\<open>dict_wf\<close>).
  \<^item> An exception is the left injection of a sum; a function that may raise returns
    \<open>error + 'a\<close>.
\<close>

subsection \<open>Data\<close>

type_synonym bytes = "8 word list"

type_synonym dict = "(string \<times> string) list"

definition dict_get :: "dict \<Rightarrow> string \<Rightarrow> string option" where
  "dict_get d k = map_of d k"

definition dict_keys :: "dict \<Rightarrow> string list" where
  "dict_keys d = map fst d"

definition dict_wf :: "dict \<Rightarrow> bool" where
  "dict_wf d = distinct (map fst d)"

text \<open>
  The exceptions that can leave \<open>main\<close>: a failed subscript (\<open>KeyError\<close> with the key), the
  decoding errors of the standard library (\<open>binascii.Error\<close> and, for text that is not
  ASCII, \<open>ValueError\<close> from \<open>base64.b64decode\<close>; \<open>UnicodeDecodeError\<close> from
  \<open>bytes.decode\<close>), and whatever the webhook client raises.
\<close>

datatype error =
    KeyError string
  | BinasciiError
  | ValueError
  | UnicodeDecodeError
  | WebhookError string

subsection \<open>\<open>is_allowed_type\<close> (main.py, lines 51 to 62)\<close>

text \<open>
  The \<open>for\<close> loop over \<open>allowed_type_urls\<close>. Each iteration evaluates
  \<open>pubsub_attributes['type_url']\<close> anew, so a missing key raises in the first iteration.
\<close>

fun is_allowed_type_loop :: "dict \<Rightarrow> string list \<Rightarrow> error + bool" where
  "is_allowed_type_loop pubsub_attributes [] = Inr False"
| "is_allowed_type_loop pubsub_attributes (url # urls) =
     (case dict_get pubsub_attributes ''type_url'' of
        None \<Rightarrow> Inl (KeyError ''type_url'')
      | Some t \<Rightarrow>
          if t = url then Inr True
          else is_allowed_type_loop pubsub_attributes urls)"

definition is_allowed_type :: "dict \<Rightarrow> string list \<Rightarrow> error + bool" where
  "is_allowed_type pubsub_attributes allowed_type_urls =
     (if allowed_type_urls = [] then Inr True
      else is_allowed_type_loop pubsub_attributes allowed_type_urls)"

subsection \<open>\<open>create_slack_message\<close> (main.py, lines 65 to 76)\<close>

definition newline :: char where
  "newline = CHR 0x0A"

definition tab :: char where
  "tab = CHR 0x09"

definition fence :: string where
  "fence = ''```''"

text \<open>
  The loop \<open>for key in pubsub_attributes\<close>, with the text built so far as accumulator.
  The f-string inserts the key and the looked-up value unchanged, both being \<open>str\<close>.
\<close>

fun create_slack_message_loop :: "dict \<Rightarrow> string list \<Rightarrow> string \<Rightarrow> error + string" where
  "create_slack_message_loop pubsub_attributes [] text = Inr text"
| "create_slack_message_loop pubsub_attributes (key # keys) text =
     (case dict_get pubsub_attributes key of
        None \<Rightarrow> Inl (KeyError key)
      | Some v \<Rightarrow>
          create_slack_message_loop pubsub_attributes keys
            (text @ [newline, tab] @ key @ '': '' @ v))"

definition create_slack_message :: "string \<Rightarrow> dict \<Rightarrow> error + string" where
  "create_slack_message data pubsub_attributes =
     (case create_slack_message_loop pubsub_attributes (dict_keys pubsub_attributes)
             (data @ [newline] @ fence) of
        Inl e \<Rightarrow> Inl e
      | Inr text \<Rightarrow> Inr (text @ [newline] @ fence))"

subsection \<open>The surroundings of \<open>main\<close>\<close>

text \<open>
  \<open>main\<close> subscripts the event dictionary at \<open>'attributes'\<close> and \<open>'data'\<close> only; the
  record has these two entries (\<open>ev_attributes\<close>, \<open>ev_data\<close>), each present or absent,
  typed as Pub/Sub delivers them.
  \<open>os.environ\<close> is a partial map from names to values.
\<close>

record event =
  ev_attributes :: "dict option"
  ev_data :: "string option"

type_synonym environ = "string \<rightharpoonup> string"

text \<open>
  \<open>WebhookClient.send\<close> returns a response object carrying the HTTP status and body, or
  raises.
\<close>

record webhook_response =
  status_code :: int
  body :: string

text \<open>
  The library functions \<open>main\<close> calls are not part of the repository: \<open>base64.b64decode\<close>,
  \<open>bytes.decode('utf-8')\<close> and \<open>WebhookClient(url).send(text=...)\<close>. They are parameters
  of the model: a theorem about \<open>main\<close> holds for whatever they compute, unless it says
  which decoder the runtime has. Constructing
  the client only stores the URL, so construction and \<open>send\<close> are one operation,
  \<open>webhook_send\<close>, placed where \<open>send\<close> is called.
\<close>

record runtime =
  b64decode :: "string \<Rightarrow> error + bytes"
  utf8_decode :: "bytes \<Rightarrow> error + string"
  webhook_send :: "string \<Rightarrow> string \<Rightarrow> error + webhook_response"

text \<open>
  What an invocation does, in order: the operations it evaluates, each with its arguments.
  An operation that raises is recorded too, as the last one.
\<close>

datatype op =
    EventSubscript string
  | EnvironSubscript string
  | B64Decode string
  | Utf8Decode bytes
  | IsAllowedType dict "string list"
  | CreateSlackMessage string dict
  | WebhookSend string string

type_synonym 'a exec = "(error + 'a) \<times> op list"

definition perform :: "op \<Rightarrow> error + 'a \<Rightarrow> 'a exec" where
  "perform a r = (r, [a])"

definition and_then :: "'a exec \<Rightarrow> ('a \<Rightarrow> 'b exec) \<Rightarrow> 'b exec" where
  "and_then m f =
     (case m of
        (Inl e, t) \<Rightarrow> (Inl e, t)
      | (Inr x, t) \<Rightarrow> (case f x of (r, t') \<Rightarrow> (r, t @ t')))"

definition return_none :: "unit exec" where
  "return_none = (Inr (), [])"

definition subscript :: "string \<Rightarrow> 'a option \<Rightarrow> error + 'a" where
  "subscript k v = (case v of None \<Rightarrow> Inl (KeyError k) | Some x \<Rightarrow> Inr x)"

definition outcome :: "'a exec \<Rightarrow> error + 'a" where
  "outcome r = fst r"

definition trace :: "'a exec \<Rightarrow> op list" where
  "trace r = snd r"

fun webhook_sends :: "op list \<Rightarrow> (string \<times> string) list" where
  "webhook_sends [] = []"
| "webhook_sends (WebhookSend url text # t) = (url, text) # webhook_sends t"
| "webhook_sends (_ # t) = webhook_sends t"

fun is_decode :: "op \<Rightarrow> bool" where
  "is_decode (B64Decode _) = True"
| "is_decode (Utf8Decode _) = True"
| "is_decode _ = False"

fun is_filter :: "op \<Rightarrow> bool" where
  "is_filter (IsAllowedType _ _) = True"
| "is_filter _ = False"

fun is_environ_read :: "op \<Rightarrow> bool" where
  "is_environ_read (EnvironSubscript _) = True"
| "is_environ_read _ = False"

subsection \<open>\<open>main\<close> (main.py, lines 79 to 115)\<close>

text \<open>
  Statement by statement: the attributes, the webhook URL, the fixed allow-list, the
  payload decoded in two stages, the filter, and for an allowed event the message and its
  delivery. The response of \<open>send\<close> is bound to a variable and never read; the function
  returns \<open>None\<close>. The \<open>context\<close> argument is never read and is left out. The three
  imports at the head of the function are taken to succeed.
\<close>

definition main :: "runtime \<Rightarrow> environ \<Rightarrow> event \<Rightarrow> unit exec" where
  "main rt env ev =
     and_then (perform (EventSubscript ''attributes'')
                 (subscript ''attributes'' (ev_attributes ev))) (\<lambda>pubsub_attributes.
     and_then (perform (EnvironSubscript ''SLACK_WEBHOOK_URL'')
                 (subscript ''SLACK_WEBHOOK_URL'' (env ''SLACK_WEBHOOK_URL''))) (\<lambda>slack_url.
     let allowed_type_urls = [''type.googleapis.com/google.container.v1beta1.UpgradeEvent''] in
     and_then (perform (EventSubscript ''data'')
                 (subscript ''data'' (ev_data ev))) (\<lambda>encoded.
     and_then (perform (B64Decode encoded) (b64decode rt encoded)) (\<lambda>decoded.
     and_then (perform (Utf8Decode decoded) (utf8_decode rt decoded)) (\<lambda>data.
     and_then (perform (IsAllowedType pubsub_attributes allowed_type_urls)
                 (is_allowed_type pubsub_attributes allowed_type_urls)) (\<lambda>is_allowed.
     if is_allowed then
       and_then (perform (CreateSlackMessage data pubsub_attributes)
                   (create_slack_message data pubsub_attributes)) (\<lambda>slack_message.
       and_then (perform (WebhookSend slack_url slack_message)
                   (webhook_send rt slack_url slack_message)) (\<lambda>response.
       return_none))
     else return_none))))))"

subsection \<open>The decoders of the standard library\<close>

unbundle bit_operations_syntax

text \<open>
  \<open>main\<close> calls \<open>base64.b64decode(event['data'])\<close> with the default \<open>validate=False\<close>. For a
  \<open>str\<close> the function first encodes the argument as ASCII, raising \<open>ValueError\<close> on any
  other character, and passes the bytes to \<open>binascii.a2b_base64\<close>. Its loop, below with
  the names of the C source, skips every character outside the alphabet; a pad character
  ends the input when it completes a group of four and is skipped otherwise; a character
  of the alphabet contributes six bits. A group left incomplete at the end of the input
  raises \<open>binascii.Error\<close>. Nothing checks that the input has the form of an encoding.
\<close>

definition table_a2b_base64 :: "char \<Rightarrow> 8 word option" where
  "table_a2b_base64 c =
     (let n = (of_char c :: nat) in
      if 65 \<le> n \<and> n \<le> 90 then Some (of_nat (n - 65))
      else if 97 \<le> n \<and> n \<le> 122 then Some (of_nat (n - 71))
      else if 48 \<le> n \<and> n \<le> 57 then Some (of_nat (n + 4))
      else if n = 43 then Some 62
      else if n = 47 then Some 63
      else None)"

definition put_byte :: "8 word \<Rightarrow> error + bytes \<Rightarrow> error + bytes" where
  "put_byte b r = (case r of Inl e \<Rightarrow> Inl e | Inr bs \<Rightarrow> Inr (b # bs))"

fun a2b_base64_loop :: "nat \<Rightarrow> 8 word \<Rightarrow> nat \<Rightarrow> string \<Rightarrow> error + bytes" where
  "a2b_base64_loop quad_pos leftchar pads [] =
     (if quad_pos \<noteq> 0 then Inl BinasciiError else Inr [])"
| "a2b_base64_loop quad_pos leftchar pads (c # cs) =
     (if c = CHR ''='' then
        (if 2 \<le> quad_pos \<and> 4 \<le> quad_pos + (pads + 1) then Inr []
         else a2b_base64_loop quad_pos leftchar
                (if 2 \<le> quad_pos then pads + 1 else pads) cs)
      else
        (case table_a2b_base64 c of
           None \<Rightarrow> a2b_base64_loop quad_pos leftchar pads cs
         | Some this_ch \<Rightarrow>
             if quad_pos = 0 then a2b_base64_loop 1 this_ch 0 cs
             else if quad_pos = 1 then
               put_byte (push_bit 2 leftchar OR drop_bit 4 this_ch)
                 (a2b_base64_loop 2 (this_ch AND 0x0F) 0 cs)
             else if quad_pos = 2 then
               put_byte (push_bit 4 leftchar OR drop_bit 2 this_ch)
                 (a2b_base64_loop 3 (this_ch AND 0x03) 0 cs)
             else
               put_byte (push_bit 6 leftchar OR this_ch)
                 (a2b_base64_loop 0 0 0 cs)))"

definition base64_b64decode :: "string \<Rightarrow> error + bytes" where
  "base64_b64decode s =
     (if list_all (\<lambda>c. (of_char c :: nat) < 128) s then a2b_base64_loop 0 0 0 s
      else Inl ValueError)"

text \<open>
  \<open>bytes.decode('utf-8')\<close> is strict: it raises \<open>UnicodeDecodeError\<close> on every byte string
  that is not well-formed UTF-8. Well-formedness is the table of the Unicode standard:
  the lead byte fixes the number of continuation bytes and, for \<open>E0\<close>, \<open>ED\<close>, \<open>F0\<close> and
  \<open>F4\<close>, narrows the range of the first of them.
\<close>

definition continuation :: "8 word \<Rightarrow> bool" where
  "continuation b = (0x80 \<le> b \<and> b \<le> 0xBF)"

fun valid_utf8 :: "bytes \<Rightarrow> bool" where
  "valid_utf8 [] = True"
| "valid_utf8 (b # bs) =
     (if b < 0x80 then valid_utf8 bs
      else if 0xC2 \<le> b \<and> b \<le> 0xDF then
        (case bs of
           c1 # r \<Rightarrow> continuation c1 \<and> valid_utf8 r
         | _ \<Rightarrow> False)
      else if 0xE0 \<le> b \<and> b \<le> 0xEF then
        (case bs of
           c1 # c2 # r \<Rightarrow>
             (if b = 0xE0 then 0xA0 \<le> c1 \<and> c1 \<le> 0xBF
              else if b = 0xED then 0x80 \<le> c1 \<and> c1 \<le> 0x9F
              else continuation c1)
             \<and> continuation c2 \<and> valid_utf8 r
         | _ \<Rightarrow> False)
      else if 0xF0 \<le> b \<and> b \<le> 0xF4 then
        (case bs of
           c1 # c2 # c3 # r \<Rightarrow>
             (if b = 0xF0 then 0x90 \<le> c1 \<and> c1 \<le> 0xBF
              else if b = 0xF4 then 0x80 \<le> c1 \<and> c1 \<le> 0x8F
              else continuation c1)
             \<and> continuation c2 \<and> continuation c3 \<and> valid_utf8 r
         | _ \<Rightarrow> False)
      else False)"

text \<open>
  The specification's side: what it calls a valid transit encoding of valid UTF-8 text.
  \<open>valid_base64\<close> is the form of standard base64: characters of the alphabet, then at most
  two pad characters, the whole in groups of four. \<open>valid_transit_encoding\<close> adds that the
  bytes so encoded are well-formed UTF-8.
\<close>

definition valid_base64 :: "string \<Rightarrow> bool" where
  "valid_base64 s =
     (list_all (\<lambda>c. table_a2b_base64 c \<noteq> None) (takeWhile (\<lambda>c. c \<noteq> CHR ''='') s)
      \<and> list_all (\<lambda>c. c = CHR ''='') (dropWhile (\<lambda>c. c \<noteq> CHR ''='') s)
      \<and> length (dropWhile (\<lambda>c. c \<noteq> CHR ''='') s) \<le> 2
      \<and> length s mod 4 = 0)"

definition valid_transit_encoding :: "string \<Rightarrow> bool" where
  "valid_transit_encoding s =
     (valid_base64 s
      \<and> (case base64_b64decode s of Inl e \<Rightarrow> False | Inr decoded \<Rightarrow> valid_utf8 decoded))"

subsection \<open>Inputs for evaluating \<open>main\<close>\<close>

text \<open>
  A runtime for running \<open>main\<close> on the end-to-end scenarios. Its \<open>b64decode\<close> is
  \<open>base64_b64decode\<close>. Its \<open>utf8_decode\<close> decodes ASCII and rejects the rest, so it
  rejects every byte string that is not UTF-8. Its \<open>webhook_send\<close> returns the given
  response.
\<close>

definition scenario_runtime :: "webhook_response \<Rightarrow> runtime" where
  "scenario_runtime response =
     \<lparr> b64decode = base64_b64decode,
       utf8_decode = (\<lambda>bs. if list_all (\<lambda>b. b < 0x80) bs
                            then Inr (map (\<lambda>b. char_of (unat b)) bs)
                            else Inl UnicodeDecodeError),
       webhook_send = (\<lambda>url message. Inr response) \<rparr>"

definition scenario_environ :: environ where
  "scenario_environ =
     [''SLACK_WEBHOOK_URL'' \<mapsto> ''https://hooks.slack.com/services/T0/B0/X0'']"

definition scenario_A :: event where
  "scenario_A =
     \<lparr> ev_attributes =
         Some [(''type_url'', ''type.googleapis.com/google.container.v1beta1.UpgradeEvent'')],
       ev_data = Some ''Tm9kZSBwb29sIHVwZ3JhZGVk'' \<rparr>"

definition scenario_B :: event where
  "scenario_B =
     \<lparr> ev_attributes = Some [(''type_url'', ''some.other.Event'')],
       ev_data = Some ''Tm9kZSBwb29sIHVwZ3JhZGVk'' \<rparr>"

section \<open>Properties\<close>

subsection \<open>Running the steps of \<open>main\<close>\<close>

lemma outcome_and_then_Inl:
  "outcome (and_then (perform a (Inl e)) f) = Inl e"
  by (simp add: outcome_def and_then_def perform_def)

lemma trace_and_then_Inl:
  "trace (and_then (perform a (Inl e)) f) = [a]"
  by (simp add: trace_def and_then_def perform_def)

lemma outcome_and_then_Inr:
  "outcome (and_then (perform a (Inr x)) f) = outcome (f x)"
  by (simp add: outcome_def and_then_def perform_def split: prod.splits)

lemma trace_and_then_Inr:
  "trace (and_then (perform a (Inr x)) f) = a # trace (f x)"
  by (simp add: trace_def and_then_def perform_def split: prod.splits)

lemma outcome_return_none: "outcome return_none = Inr ()"
  by (simp add: outcome_def return_none_def)

lemma trace_return_none: "trace return_none = []"
  by (simp add: trace_def return_none_def)

lemmas run_simps =
  outcome_and_then_Inl trace_and_then_Inl outcome_and_then_Inr trace_and_then_Inr
  outcome_return_none trace_return_none subscript_def

lemma scenario_b64decode_is_python: "b64decode (scenario_runtime r) = base64_b64decode"
  by (simp add: scenario_runtime_def)

lemma base64_b64decode_payload:
  "base64_b64decode ''Tm9kZSBwb29sIHVwZ3JhZGVk'' =
     Inr [78, 111, 100, 101, 32, 112, 111, 111, 108, 32, 117, 112, 103, 114, 97, 100, 101, 100]"
  by code_simp

lemma base64_b64decode_one_character: "base64_b64decode ''a'' = Inl BinasciiError"
  by code_simp

lemma base64_b64decode_byte_FF: "base64_b64decode ''/w=='' = Inr [0xFF]"
  by code_simp

lemma base64_b64decode_no_alphabet: "base64_b64decode ''!!!!'' = Inr []"
  by code_simp

lemma scenario_b64decode:
  "b64decode (scenario_runtime r) ''Tm9kZSBwb29sIHVwZ3JhZGVk'' =
     Inr [78, 111, 100, 101, 32, 112, 111, 111, 108, 32, 117, 112, 103, 114, 97, 100, 101, 100]"
  by (simp only: scenario_b64decode_is_python base64_b64decode_payload)

lemma scenario_b64decode_rejects:
  "b64decode (scenario_runtime r) ''a'' = Inl BinasciiError"
  by (simp only: scenario_b64decode_is_python base64_b64decode_one_character)

lemma scenario_utf8_decode:
  "utf8_decode (scenario_runtime r)
     [78, 111, 100, 101, 32, 112, 111, 111, 108, 32, 117, 112, 103, 114, 97, 100, 101, 100] =
   Inr ''Node pool upgraded''"
  unfolding scenario_runtime_def by code_simp

lemma scenario_b64decode_not_utf8:
  "b64decode (scenario_runtime r) ''/w=='' = Inr [0xFF]"
  by (simp only: scenario_b64decode_is_python base64_b64decode_byte_FF)

lemma scenario_utf8_decode_rejects:
  "utf8_decode (scenario_runtime r) [0xFF] = Inl UnicodeDecodeError"
  by (simp add: scenario_runtime_def)

lemma scenario_webhook_send:
  "webhook_send (scenario_runtime r) url message = Inr r"
  by (simp add: scenario_runtime_def)

lemma scenario_environ_url:
  "scenario_environ ''SLACK_WEBHOOK_URL'' = Some ''https://hooks.slack.com/services/T0/B0/X0''"
  by (simp add: scenario_environ_def)

subsection \<open>The filter\<close>

lemma is_allowed_type_loop_present:
  "dict_get pubsub_attributes ''type_url'' = Some t \<Longrightarrow>
   is_allowed_type_loop pubsub_attributes urls = Inr (t \<in> set urls)"
  by (induction urls) auto

lemma is_allowed_type_loop_absent:
  "dict_get pubsub_attributes ''type_url'' = None \<Longrightarrow> urls \<noteq> [] \<Longrightarrow>
   is_allowed_type_loop pubsub_attributes urls = Inl (KeyError ''type_url'')"
  by (cases urls) auto

text \<open>
  C1. When the attributes hold \<open>type_url\<close> with value \<open>t\<close> and the allow-list is not empty,
  \<open>is_allowed_type\<close> returns, without raising, whether \<open>t\<close> is a member of the allow-list.
  Membership is equality of strings character by character, so it is case-sensitive.
\<close>

theorem is_allowed_type_iff_member:
  assumes "dict_get pubsub_attributes ''type_url'' = Some t"
    and "allowed_type_urls \<noteq> []"
  shows "is_allowed_type pubsub_attributes allowed_type_urls = Inr (t \<in> set allowed_type_urls)"
  using assms by (simp add: is_allowed_type_def is_allowed_type_loop_present)

theorem is_allowed_type_iff_member_witness:
  "is_allowed_type [(''cluster'', ''prod''), (''type_url'', ''x.UpgradeEvent'')]
     [''x.upgradeevent'', ''x.UpgradeEvent''] = Inr True
   \<and> is_allowed_type [(''cluster'', ''prod''), (''type_url'', ''x.UpgradeEvent'')]
     [''x.upgradeevent'', ''X.UPGRADEEVENT''] = Inr False"
proof -
  have present:
    "dict_get [(''cluster'', ''prod''), (''type_url'', ''x.UpgradeEvent'')] ''type_url''
       = Some ''x.UpgradeEvent''"
    by (simp add: dict_get_def)
  have ne1: "[''x.upgradeevent'', ''x.UpgradeEvent''] \<noteq> []" by simp
  have ne2: "[''x.upgradeevent'', ''X.UPGRADEEVENT''] \<noteq> []" by simp
  from is_allowed_type_iff_member [OF present ne1] is_allowed_type_iff_member [OF present ne2]
  show ?thesis by simp
qed

text \<open>
  C4. With an empty allow-list \<open>is_allowed_type\<close> returns true whatever the attributes are,
  also when they are empty or lack \<open>type_url\<close>; it does not raise.
\<close>

theorem is_allowed_type_empty_allow_list:
  "is_allowed_type pubsub_attributes [] = Inr True"
  by (simp add: is_allowed_type_def)

text \<open>
  C5. With a non-empty allow-list and attributes that lack \<open>type_url\<close>, \<open>is_allowed_type\<close>
  raises the \<open>KeyError\<close> of the failed lookup; it does not return false.
\<close>

theorem is_allowed_type_missing_type_url:
  assumes "dict_get pubsub_attributes ''type_url'' = None"
    and "allowed_type_urls \<noteq> []"
  shows "is_allowed_type pubsub_attributes allowed_type_urls = Inl (KeyError ''type_url'')
       \<and> is_allowed_type pubsub_attributes allowed_type_urls \<noteq> Inr False"
  using assms by (simp add: is_allowed_type_def is_allowed_type_loop_absent)

theorem is_allowed_type_missing_type_url_witness:
  "is_allowed_type [(''cluster'', ''prod'')] [''x.UpgradeEvent''] = Inl (KeyError ''type_url'')
   \<and> is_allowed_type [(''cluster'', ''prod'')] [''x.UpgradeEvent''] \<noteq> Inr False"
proof -
  have absent: "dict_get [(''cluster'', ''prod'')] ''type_url'' = None"
    by (simp add: dict_get_def)
  have ne: "[''x.UpgradeEvent''] \<noteq> []" by simp
  from is_allowed_type_missing_type_url [OF absent ne] show ?thesis .
qed


subsection \<open>The formatter\<close>

lemma create_slack_message_loop_keys:
  "set keys \<subseteq> set (dict_keys d) \<Longrightarrow>
   create_slack_message_loop d keys acc =
     Inr (acc @ concat (map (\<lambda>key. [newline, tab] @ key @ '': '' @ the (dict_get d key)) keys))"
proof (induction keys arbitrary: acc)
  case Nil
  then show ?case by simp
next
  case (Cons key keys)
  from Cons.prems have "key \<in> fst ` set d" by (simp add: dict_keys_def)
  then obtain v where v: "dict_get d key = Some v"
    unfolding dict_get_def by (metis domD dom_map_of_conv_image_fst)
  from Cons.prems have "set keys \<subseteq> set (dict_keys d)" by simp
  from Cons.IH [OF this] v show ?case by simp
qed

lemma create_slack_message_total:
  "create_slack_message decoded_text d =
     Inr (decoded_text @ [CHR 0x0A] @ ''```'' @
          concat (map (\<lambda>key. [CHR 0x0A, CHR 0x09] @ key @ '': '' @ the (dict_get d key))
                    (dict_keys d)) @
          [CHR 0x0A] @ ''```'')"
  by (simp add: create_slack_message_def create_slack_message_loop_keys
      newline_def tab_def fence_def)

lemma dict_wf_lines:
  "dict_wf d \<Longrightarrow>
   map (\<lambda>key. [CHR 0x0A, CHR 0x09] @ key @ '': '' @ the (dict_get d key)) (dict_keys d) =
   map (\<lambda>(key, v). [CHR 0x0A, CHR 0x09] @ key @ '': '' @ v) d"
  unfolding dict_wf_def dict_get_def dict_keys_def
  by (induction d) (auto simp: rev_image_eqI)

text \<open>
  C2. \<open>create_slack_message\<close> never raises, and its result is the decoded text, a newline
  and the opening fence, then for each key in iteration order a newline, a tab, the key,
  a colon and a space, and the value stored under the key, then a newline and the closing
  fence. For a dictionary (each key once) these are the lines of its items in order. The
  empty mapping gives the text followed by an empty fenced block, and
  \<open>("hello", {"a": "1", "b": "2"})\<close> gives the string of the specification.
\<close>

theorem create_slack_message_format:
  "create_slack_message decoded_text pubsub_attributes =
     Inr (decoded_text @ [CHR 0x0A] @ ''```'' @
          concat (map (\<lambda>key. [CHR 0x0A, CHR 0x09] @ key @ '': '' @
                              the (dict_get pubsub_attributes key))
                    (dict_keys pubsub_attributes)) @
          [CHR 0x0A] @ ''```'')
   \<and> (dict_wf pubsub_attributes \<longrightarrow>
        create_slack_message decoded_text pubsub_attributes =
          Inr (decoded_text @ [CHR 0x0A] @ ''```'' @
               concat (map (\<lambda>(key, v). [CHR 0x0A, CHR 0x09] @ key @ '': '' @ v)
                         pubsub_attributes) @
               [CHR 0x0A] @ ''```''))
   \<and> create_slack_message decoded_text [] =
        Inr (decoded_text @ [CHR 0x0A] @ ''```'' @ [CHR 0x0A] @ ''```'')
   \<and> create_slack_message ''hello'' [(''a'', ''1''), (''b'', ''2'')] =
        Inr (''hello'' @ [CHR 0x0A] @ ''```'' @ [CHR 0x0A, CHR 0x09] @ ''a: 1'' @
             [CHR 0x0A, CHR 0x09] @ ''b: 2'' @ [CHR 0x0A] @ ''```'')"
proof (intro conjI impI)
  show "create_slack_message decoded_text pubsub_attributes =
     Inr (decoded_text @ [CHR 0x0A] @ ''```'' @
          concat (map (\<lambda>key. [CHR 0x0A, CHR 0x09] @ key @ '': '' @
                              the (dict_get pubsub_attributes key))
                    (dict_keys pubsub_attributes)) @
          [CHR 0x0A] @ ''```'')"
    by (rule create_slack_message_total)
next
  assume "dict_wf pubsub_attributes"
  from dict_wf_lines [OF this]
  show "create_slack_message decoded_text pubsub_attributes =
          Inr (decoded_text @ [CHR 0x0A] @ ''```'' @
               concat (map (\<lambda>(key, v). [CHR 0x0A, CHR 0x09] @ key @ '': '' @ v)
                         pubsub_attributes) @
               [CHR 0x0A] @ ''```'')"
    by (simp only: create_slack_message_total)
next
  show "create_slack_message decoded_text [] =
        Inr (decoded_text @ [CHR 0x0A] @ ''```'' @ [CHR 0x0A] @ ''```'')"
    by (simp add: create_slack_message_total dict_keys_def)
next
  show "create_slack_message ''hello'' [(''a'', ''1''), (''b'', ''2'')] =
        Inr (''hello'' @ [CHR 0x0A] @ ''```'' @ [CHR 0x0A, CHR 0x09] @ ''a: 1'' @
             [CHR 0x0A, CHR 0x09] @ ''b: 2'' @ [CHR 0x0A] @ ''```'')"
    by (simp add: create_slack_message_total dict_keys_def dict_get_def)
qed

theorem create_slack_message_format_witness:
  "dict_wf [(''cluster'', ''prod''), (''zone'', ''us-east1-b'')]
   \<and> create_slack_message ''upgrade complete''
         [(''cluster'', ''prod''), (''zone'', ''us-east1-b'')] =
       Inr (''upgrade complete'' @ [CHR 0x0A] @ ''```'' @
            [CHR 0x0A, CHR 0x09] @ ''cluster: prod'' @
            [CHR 0x0A, CHR 0x09] @ ''zone: us-east1-b'' @ [CHR 0x0A] @ ''```'')"
proof -
  have wf: "dict_wf [(''cluster'', ''prod''), (''zone'', ''us-east1-b'')]"
    by (simp add: dict_wf_def)
  from create_slack_message_format
         [of "''upgrade complete''" "[(''cluster'', ''prod''), (''zone'', ''us-east1-b'')]",
          THEN conjunct2, THEN conjunct1, rule_format, OF wf] wf
  show ?thesis by simp
qed


subsection \<open>The decoders\<close>

text \<open>
  Whether \<open>a2b_base64_loop\<close> raises depends on the position in the group of four and on
  the pad count, not on the bits collected.
\<close>

lemma isl_put_byte: "isl (put_byte b r) = isl r"
  by (cases r) (simp_all add: put_byte_def)

lemma a2b_base64_loop_isl_leftchar:
  "isl (a2b_base64_loop quad_pos leftchar pads s) = isl (a2b_base64_loop quad_pos leftchar' pads s)"
proof (induction s arbitrary: quad_pos leftchar leftchar' pads)
  case Nil
  then show ?case by simp
next
  case (Cons c cs)
  show ?case
  proof (cases "c = CHR ''=''")
    case True
    with Cons.IH [of quad_pos leftchar _ leftchar'] show ?thesis by simp
  next
    case False
    show ?thesis
    proof (cases "table_a2b_base64 c")
      case None
      with False Cons.IH [of quad_pos leftchar pads leftchar'] show ?thesis by simp
    next
      case (Some this_ch)
      with False show ?thesis by (simp add: isl_put_byte)
    qed
  qed
qed

lemma table_a2b_base64_not_pad: "table_a2b_base64 c \<noteq> None \<Longrightarrow> c \<noteq> CHR ''=''"
  by (auto simp add: table_a2b_base64_def Let_def split: if_splits)

lemma table_a2b_base64_ascii: "table_a2b_base64 c \<noteq> None \<Longrightarrow> (of_char c :: nat) < 128"
  by (auto simp add: table_a2b_base64_def Let_def split: if_splits)

lemma a2b_base64_loop_digits:
  "list_all (\<lambda>c. table_a2b_base64 c \<noteq> None) ds \<Longrightarrow> quad_pos < 4 \<Longrightarrow>
   isl (a2b_base64_loop quad_pos leftchar pads (ds @ rest)) =
   isl (a2b_base64_loop ((quad_pos + length ds) mod 4) 0 (if ds = [] then pads else 0) rest)"
proof (induction ds arbitrary: quad_pos leftchar pads)
  case Nil
  then show ?case
    using a2b_base64_loop_isl_leftchar [of quad_pos leftchar pads rest 0] by simp
next
  case (Cons d ds)
  from Cons.prems obtain this_ch where d: "table_a2b_base64 d = Some this_ch" by auto
  then have np: "d \<noteq> CHR ''=''" using table_a2b_base64_not_pad [of d] by simp
  from Cons.prems have ds: "list_all (\<lambda>c. table_a2b_base64 c \<noteq> None) ds" by simp
  have zero: "isl (a2b_base64_loop q l 0 (ds @ rest)) =
     isl (a2b_base64_loop ((q + length ds) mod 4) 0 0 rest)" if "q < 4" for q l
  proof (cases ds)
    case Nil
    then show ?thesis using that a2b_base64_loop_isl_leftchar [of q l 0 rest 0] by simp
  next
    case (Cons x xs)
    with Cons.IH [OF ds that, of l 0] show ?thesis by simp
  qed
  from Cons.prems(2) consider "quad_pos = 0" | "quad_pos = 1" | "quad_pos = 2" | "quad_pos = 3"
    by linarith
  then show ?case
  proof cases
    case 1
    with d np zero [of 1 this_ch] show ?thesis by simp
  next
    case 2
    with d np zero [of 2] show ?thesis by (simp add: isl_put_byte)
  next
    case 3
    with d np zero [of 3] show ?thesis by (simp add: isl_put_byte)
  next
    case 4
    with d np zero [of 0] show ?thesis by (simp add: isl_put_byte)
  qed
qed

lemma pads_cases:
  assumes "list_all (\<lambda>c. c = CHR ''='') ps" and "length ps \<le> 2"
  shows "ps = [] \<or> ps = ''='' \<or> ps = ''==''"
proof (cases ps)
  case Nil
  then show ?thesis by simp
next
  case (Cons p ps')
  note outer = Cons
  show ?thesis
  proof (cases ps')
    case Nil
    with outer show ?thesis using assms by simp
  next
    case (Cons q ps'')
    with outer show ?thesis using assms by simp
  qed
qed

lemma valid_base64_accepted:
  assumes "valid_base64 s"
  shows "\<not> isl (base64_b64decode s)"
proof -
  let ?ds = "takeWhile (\<lambda>c. c \<noteq> CHR ''='') s"
  let ?ps = "dropWhile (\<lambda>c. c \<noteq> CHR ''='') s"
  have s: "s = ?ds @ ?ps" by simp
  from assms have ds: "list_all (\<lambda>c. table_a2b_base64 c \<noteq> None) ?ds"
    and ps: "list_all (\<lambda>c. c = CHR ''='') ?ps" and len: "length ?ps \<le> 2"
    and four: "length s mod 4 = 0"
    by (simp_all add: valid_base64_def)
  have ascii: "list_all (\<lambda>c. (of_char c :: nat) < 128) s"
    unfolding list_all_iff
  proof
    fix c assume "c \<in> set s"
    then have "c \<in> set (?ds @ ?ps)" by simp
    then have "c \<in> set ?ds \<or> c \<in> set ?ps" by (simp only: set_append Un_iff)
    then show "(of_char c :: nat) < 128"
    proof
      assume m: "c \<in> set ?ds"
      from ds have "\<forall>c\<in>set ?ds. table_a2b_base64 c \<noteq> None"
        by (simp only: list_all_iff)
      then have "table_a2b_base64 c \<noteq> None" using m by (rule bspec)
      then show ?thesis by (rule table_a2b_base64_ascii)
    next
      assume m: "c \<in> set ?ps"
      from ps have "\<forall>c\<in>set ?ps. c = CHR ''=''"
        by (simp only: list_all_iff)
      then have "c = CHR ''=''" using m by (rule bspec)
      then show ?thesis by simp
    qed
  qed
  have four': "(length ?ds + length ?ps) mod 4 = 0"
  proof -
    have "length (?ds @ ?ps) = length s" by simp
    with four show ?thesis by (simp only: length_append)
  qed
  have scan: "isl (a2b_base64_loop 0 0 0 (?ds @ ?ps)) =
     isl (a2b_base64_loop (length ?ds mod 4) 0 0 ?ps)"
    using a2b_base64_loop_digits [OF ds, of 0 0 0 ?ps] by simp
  from pads_cases [OF ps len] have "\<not> isl (a2b_base64_loop (length ?ds mod 4) 0 0 ?ps)"
  proof (elim disjE)
    assume e: "?ps = []"
    from four' have "length ?ds mod 4 = 0" unfolding e by simp
    then show ?thesis unfolding e by simp
  next
    assume e: "?ps = ''=''"
    from four' have "length ?ds mod 4 = 3" unfolding e by simp presburger
    then show ?thesis unfolding e by simp
  next
    assume e: "?ps = ''==''"
    from four' have "length ?ds mod 4 = 2" unfolding e by simp presburger
    then show ?thesis unfolding e by simp
  qed
  with scan have "\<not> isl (a2b_base64_loop 0 0 0 (?ds @ ?ps))" by simp
  then have "\<not> isl (a2b_base64_loop 0 0 0 s)" by simp
  with ascii show ?thesis by (simp add: base64_b64decode_def)
qed

lemma ascii_valid_utf8: "list_all (\<lambda>b. b < 0x80) bs \<Longrightarrow> valid_utf8 bs"
  by (induction bs) simp_all

lemma a2b_base64_loop_unpadded:
  "CHR ''='' \<notin> set s \<Longrightarrow> quad_pos < 4 \<Longrightarrow>
   isl (a2b_base64_loop quad_pos leftchar pads s) =
   ((quad_pos + length (filter (\<lambda>c. table_a2b_base64 c \<noteq> None) s)) mod 4 \<noteq> 0)"
proof (induction s arbitrary: quad_pos leftchar pads)
  case Nil
  then show ?case by simp
next
  case (Cons c cs)
  from Cons.prems have np: "c \<noteq> CHR ''=''" and cs: "CHR ''='' \<notin> set cs" by auto
  show ?case
  proof (cases "table_a2b_base64 c")
    case None
    with np Cons.IH [OF cs Cons.prems(2)] show ?thesis by simp
  next
    case (Some this_ch)
    from Cons.prems(2) consider "quad_pos = 0" | "quad_pos = 1" | "quad_pos = 2" | "quad_pos = 3"
      by linarith
    then show ?thesis
    proof cases
      case 1
      with Some np Cons.IH [OF cs, of 1] show ?thesis by simp
    next
      case 2
      with Some np Cons.IH [OF cs, of 2] show ?thesis by (simp add: isl_put_byte)
    next
      case 3
      with Some np Cons.IH [OF cs, of 3] show ?thesis by (simp add: isl_put_byte)
    next
      case 4
      with Some np Cons.IH [OF cs, of 0] show ?thesis by (simp add: isl_put_byte)
    qed
  qed
qed

text \<open>
  Without a pad character nothing ends the input early: a string of ASCII characters is
  rejected exactly when the number of its alphabet characters is not a multiple of four.
\<close>

lemma base64_b64decode_unpadded:
  assumes "list_all (\<lambda>c. (of_char c :: nat) < 128) s" and "CHR ''='' \<notin> set s"
  shows "isl (base64_b64decode s) =
           (length (filter (\<lambda>c. table_a2b_base64 c \<noteq> None) s) mod 4 \<noteq> 0)"
  using assms a2b_base64_loop_unpadded [of s 0 0 0] by (simp add: base64_b64decode_def)

text \<open>
  The decoder rejects no valid encoding: what it rejects is not a valid transit encoding.
\<close>

lemma base64_b64decode_rejects_invalid:
  "base64_b64decode s = Inl e \<Longrightarrow> \<not> valid_base64 s"
  using valid_base64_accepted [of s] by auto

lemma scenario_utf8_decode_strict:
  "\<forall>bs. \<not> valid_utf8 bs \<longrightarrow> utf8_decode (scenario_runtime r) bs = Inl UnicodeDecodeError"
  using ascii_valid_utf8 by (auto simp add: scenario_runtime_def)

subsection \<open>The entry point\<close>

text \<open>
  C10. An event without \<open>attributes\<close> fails with the \<open>KeyError\<close> of that subscript, and the
  subscript is all the invocation evaluates: the environment is not read, so the result is
  the same whatever the environment holds, also when \<open>SLACK_WEBHOOK_URL\<close> is absent.
\<close>

theorem main_attributes_before_url:
  assumes "ev_attributes ev = None"
  shows "outcome (main rt env ev) = Inl (KeyError ''attributes'')
       \<and> trace (main rt env ev) = [EventSubscript ''attributes'']
       \<and> filter is_environ_read (trace (main rt env ev)) = []
       \<and> main rt env ev = main rt env' ev"
proof -
  have "main rt e ev = (Inl (KeyError ''attributes''), [EventSubscript ''attributes''])" for e
    using assms by (simp add: main_def and_then_def perform_def subscript_def)
  then show ?thesis by (simp add: outcome_def trace_def)
qed

theorem main_attributes_before_url_witness:
  "outcome (main (scenario_runtime \<lparr>status_code = 200, body = ''ok''\<rparr>) Map.empty
      \<lparr>ev_attributes = None, ev_data = Some ''Tm9kZSBwb29sIHVwZ3JhZGVk''\<rparr>)
     = Inl (KeyError ''attributes'')
   \<and> filter is_environ_read
        (trace (main (scenario_runtime \<lparr>status_code = 200, body = ''ok''\<rparr>) Map.empty
           \<lparr>ev_attributes = None, ev_data = Some ''Tm9kZSBwb29sIHVwZ3JhZGVk''\<rparr>)) = []"
proof -
  have absent:
    "ev_attributes \<lparr>ev_attributes = None, ev_data = Some ''Tm9kZSBwb29sIHVwZ3JhZGVk''\<rparr> = None"
    by simp
  from main_attributes_before_url [OF absent] show ?thesis by blast
qed

text \<open>
  C6, as the code has it. When \<open>SLACK_WEBHOOK_URL\<close> is absent the invocation fails before any
  decoding and before the filter: with the \<open>KeyError\<close> of the environment lookup when the
  event carries \<open>attributes\<close>, and with the \<open>KeyError\<close> of the \<open>attributes\<close> subscript, which
  comes first, when it does not.
\<close>

theorem main_missing_url:
  assumes "env ''SLACK_WEBHOOK_URL'' = None"
  shows "outcome (main rt env ev) =
           Inl (case ev_attributes ev of
                  None \<Rightarrow> KeyError ''attributes''
                | Some pubsub_attributes \<Rightarrow> KeyError ''SLACK_WEBHOOK_URL'')
       \<and> filter is_decode (trace (main rt env ev)) = []
       \<and> filter is_filter (trace (main rt env ev)) = []"
  using assms by (simp add: main_def run_simps split: option.splits)

theorem main_missing_url_witness:
  "outcome (main (scenario_runtime \<lparr>status_code = 200, body = ''ok''\<rparr>) Map.empty scenario_A)
     = Inl (KeyError ''SLACK_WEBHOOK_URL'')
   \<and> filter is_decode
        (trace (main (scenario_runtime \<lparr>status_code = 200, body = ''ok''\<rparr>) Map.empty
           scenario_A)) = []
   \<and> filter is_filter
        (trace (main (scenario_runtime \<lparr>status_code = 200, body = ''ok''\<rparr>) Map.empty
           scenario_A)) = []"
proof -
  have absent: "(Map.empty :: environ) ''SLACK_WEBHOOK_URL'' = None" by simp
  from main_missing_url [OF absent, of _ scenario_A] show ?thesis
    by (simp add: scenario_A_def)
qed

text \<open>
  The claim as the specification words it (for every event, a missing webhook URL gives
  the configuration error) fails on an event without \<open>attributes\<close>: the error is the one
  of the \<open>attributes\<close> subscript.
\<close>

theorem main_missing_url_counterexample:
  "(Map.empty :: environ) ''SLACK_WEBHOOK_URL'' = None
   \<and> outcome (main (scenario_runtime \<lparr>status_code = 200, body = ''ok''\<rparr>) Map.empty
        \<lparr>ev_attributes = None, ev_data = Some ''Tm9kZSBwb29sIHVwZ3JhZGVk''\<rparr>)
       = Inl (KeyError ''attributes'')
   \<and> outcome (main (scenario_runtime \<lparr>status_code = 200, body = ''ok''\<rparr>) Map.empty
        \<lparr>ev_attributes = None, ev_data = Some ''Tm9kZSBwb29sIHVwZ3JhZGVk''\<rparr>)
       \<noteq> Inl (KeyError ''SLACK_WEBHOOK_URL'')"
  by (simp add: main_def run_simps)


text \<open>
  With the prelude of \<open>main\<close> passed (attributes present, URL set, payload decoded), the
  invocation is the filter followed, for an allowed event, by the formatter and the send.
\<close>

lemma main_decoded:
  assumes "ev_attributes ev = Some pubsub_attributes"
    and "env ''SLACK_WEBHOOK_URL'' = Some slack_url"
    and "ev_data ev = Some encoded"
    and "b64decode rt encoded = Inr decoded"
    and "utf8_decode rt decoded = Inr decoded_text"
  shows "outcome (main rt env ev) =
           outcome (and_then
             (perform (IsAllowedType pubsub_attributes
                         [''type.googleapis.com/google.container.v1beta1.UpgradeEvent''])
                (is_allowed_type pubsub_attributes
                   [''type.googleapis.com/google.container.v1beta1.UpgradeEvent'']))
             (\<lambda>is_allowed.
                if is_allowed then
                  and_then (perform (CreateSlackMessage decoded_text pubsub_attributes)
                              (create_slack_message decoded_text pubsub_attributes))
                    (\<lambda>slack_message.
                       and_then (perform (WebhookSend slack_url slack_message)
                                   (webhook_send rt slack_url slack_message))
                         (\<lambda>response. return_none))
                else return_none))"
    and "trace (main rt env ev) =
           [EventSubscript ''attributes'', EnvironSubscript ''SLACK_WEBHOOK_URL'',
            EventSubscript ''data'', B64Decode encoded, Utf8Decode decoded] @
           trace (and_then
             (perform (IsAllowedType pubsub_attributes
                         [''type.googleapis.com/google.container.v1beta1.UpgradeEvent''])
                (is_allowed_type pubsub_attributes
                   [''type.googleapis.com/google.container.v1beta1.UpgradeEvent'']))
             (\<lambda>is_allowed.
                if is_allowed then
                  and_then (perform (CreateSlackMessage decoded_text pubsub_attributes)
                              (create_slack_message decoded_text pubsub_attributes))
                    (\<lambda>slack_message.
                       and_then (perform (WebhookSend slack_url slack_message)
                                   (webhook_send rt slack_url slack_message))
                         (\<lambda>response. return_none))
                else return_none))"
  using assms by (simp_all add: main_def run_simps Let_def)

text \<open>
  C3. For an event with attributes and a decodable payload, processed with the webhook
  URL set, on which the filter returns a verdict: the webhook is sent to exactly once when
  the verdict is true, with the URL from the environment and with the decoded text
  followed by the fenced block of the attributes as message, and not at all when the
  verdict is false.
\<close>

theorem main_sends_once_iff_allowed:
  assumes "ev_attributes ev = Some pubsub_attributes"
    and "env ''SLACK_WEBHOOK_URL'' = Some slack_url"
    and "ev_data ev = Some encoded"
    and "b64decode rt encoded = Inr decoded"
    and "utf8_decode rt decoded = Inr decoded_text"
    and "is_allowed_type pubsub_attributes
           [''type.googleapis.com/google.container.v1beta1.UpgradeEvent''] = Inr is_allowed"
  shows "webhook_sends (trace (main rt env ev)) =
           (if is_allowed
            then [(slack_url,
                   decoded_text @ [CHR 0x0A] @ ''```'' @
                   concat (map (\<lambda>key. [CHR 0x0A, CHR 0x09] @ key @ '': '' @
                                       the (dict_get pubsub_attributes key))
                             (dict_keys pubsub_attributes)) @
                   [CHR 0x0A] @ ''```'')]
            else [])"
proof (cases is_allowed)
  case True
  with assms(6) show ?thesis
    by (cases "webhook_send rt slack_url
                 (decoded_text @ [CHR 0x0A] @ ''```'' @
                  concat (map (\<lambda>key. [CHR 0x0A, CHR 0x09] @ key @ '': '' @
                                      the (dict_get pubsub_attributes key))
                            (dict_keys pubsub_attributes)) @
                  [CHR 0x0A] @ ''```'')")
      (simp_all add: main_decoded(2) [where env = env, OF assms(1-5)] run_simps create_slack_message_total)
next
  case False
  with assms(6) show ?thesis
    by (simp add: main_decoded(2) [where env = env, OF assms(1-5)] run_simps)
qed


theorem main_sends_once_iff_allowed_witness:
  "webhook_sends
     (trace (main (scenario_runtime \<lparr>status_code = 200, body = ''ok''\<rparr>) scenario_environ
        scenario_A)) =
     [(''https://hooks.slack.com/services/T0/B0/X0'',
       ''Node pool upgraded'' @ [CHR 0x0A] @ ''```'' @ [CHR 0x0A, CHR 0x09] @
       ''type_url: type.googleapis.com/google.container.v1beta1.UpgradeEvent'' @
       [CHR 0x0A] @ ''```'')]
   \<and> webhook_sends
       (trace (main (scenario_runtime \<lparr>status_code = 200, body = ''ok''\<rparr>) scenario_environ
          scenario_B)) = []"
proof -
  let ?rt = "scenario_runtime \<lparr>status_code = 200, body = ''ok''\<rparr>"
  let ?attrs_A = "[(''type_url'', ''type.googleapis.com/google.container.v1beta1.UpgradeEvent'')]"
  let ?attrs_B = "[(''type_url'', ''some.other.Event'')]"
  have attrs_A: "ev_attributes scenario_A = Some ?attrs_A" by (simp add: scenario_A_def)
  have data_A: "ev_data scenario_A = Some ''Tm9kZSBwb29sIHVwZ3JhZGVk''"
    by (simp add: scenario_A_def)
  have allowed_A:
    "is_allowed_type ?attrs_A [''type.googleapis.com/google.container.v1beta1.UpgradeEvent'']
       = Inr True"
    by (simp add: is_allowed_type_def dict_get_def)
  have attrs_B: "ev_attributes scenario_B = Some ?attrs_B" by (simp add: scenario_B_def)
  have data_B: "ev_data scenario_B = Some ''Tm9kZSBwb29sIHVwZ3JhZGVk''"
    by (simp add: scenario_B_def)
  have allowed_B:
    "is_allowed_type ?attrs_B [''type.googleapis.com/google.container.v1beta1.UpgradeEvent'']
       = Inr False"
    by (simp add: is_allowed_type_def dict_get_def)
  from main_sends_once_iff_allowed [where env = scenario_environ and rt = ?rt,
         OF attrs_A scenario_environ_url data_A scenario_b64decode scenario_utf8_decode allowed_A]
       main_sends_once_iff_allowed [where env = scenario_environ and rt = ?rt,
         OF attrs_B scenario_environ_url data_B scenario_b64decode scenario_utf8_decode allowed_B]
  show ?thesis by (simp add: dict_keys_def dict_get_def)
qed

text \<open>
  An event whose attributes lack \<open>type_url\<close> is neither allowed nor filtered out: the
  \<open>KeyError\<close> of the filter leaves \<open>main\<close>, and nothing is sent.
\<close>

lemma main_missing_type_url:
  assumes "ev_attributes ev = Some pubsub_attributes"
    and "env ''SLACK_WEBHOOK_URL'' = Some slack_url"
    and "ev_data ev = Some encoded"
    and "b64decode rt encoded = Inr decoded"
    and "utf8_decode rt decoded = Inr decoded_text"
    and "dict_get pubsub_attributes ''type_url'' = None"
  shows "outcome (main rt env ev) = Inl (KeyError ''type_url'')"
    and "webhook_sends (trace (main rt env ev)) = []"
  using assms(6)
  by (simp_all add: main_decoded [where env = env, OF assms(1-5)] run_simps
      is_allowed_type_def)

text \<open>
  C9, as the code has it. For an allowed event the invocation fails exactly when the call
  of \<open>send\<close> raises, and then with the error raised. The response that \<open>send\<close> returns is
  never inspected: whatever status it carries, the invocation completes.
\<close>

theorem main_send_result:
  assumes "ev_attributes ev = Some pubsub_attributes"
    and "env ''SLACK_WEBHOOK_URL'' = Some slack_url"
    and "ev_data ev = Some encoded"
    and "b64decode rt encoded = Inr decoded"
    and "utf8_decode rt decoded = Inr decoded_text"
    and "is_allowed_type pubsub_attributes
           [''type.googleapis.com/google.container.v1beta1.UpgradeEvent''] = Inr True"
    and "create_slack_message decoded_text pubsub_attributes = Inr slack_message"
  shows "outcome (main rt env ev) =
           (case webhook_send rt slack_url slack_message of
              Inl e \<Rightarrow> Inl e
            | Inr response \<Rightarrow> Inr ())"
  using assms(6,7)
  by (cases "webhook_send rt slack_url slack_message")
    (simp_all add: main_decoded(1) [where env = env, OF assms(1-5)] run_simps)

theorem main_send_result_witness:
  "outcome
     (main ((scenario_runtime \<lparr>status_code = 200, body = ''ok''\<rparr>)
              \<lparr>webhook_send := \<lambda>url message. Inl (WebhookError ''timed out'')\<rparr>)
        scenario_environ scenario_A) = Inl (WebhookError ''timed out'')"
proof -
  let ?rt = "(scenario_runtime \<lparr>status_code = 200, body = ''ok''\<rparr>)
               \<lparr>webhook_send := \<lambda>url message. Inl (WebhookError ''timed out'')\<rparr>"
  let ?attrs_A = "[(''type_url'', ''type.googleapis.com/google.container.v1beta1.UpgradeEvent'')]"
  have attrs_A: "ev_attributes scenario_A = Some ?attrs_A" by (simp add: scenario_A_def)
  have data_A: "ev_data scenario_A = Some ''Tm9kZSBwb29sIHVwZ3JhZGVk''"
    by (simp add: scenario_A_def)
  have b64: "b64decode ?rt ''Tm9kZSBwb29sIHVwZ3JhZGVk'' =
     Inr [78, 111, 100, 101, 32, 112, 111, 111, 108, 32, 117, 112, 103, 114, 97, 100, 101, 100]"
    by (simp add: scenario_b64decode)
  have utf8: "utf8_decode ?rt
     [78, 111, 100, 101, 32, 112, 111, 111, 108, 32, 117, 112, 103, 114, 97, 100, 101, 100] =
     Inr ''Node pool upgraded''"
    by (simp add: scenario_utf8_decode)
  have allowed_A:
    "is_allowed_type ?attrs_A [''type.googleapis.com/google.container.v1beta1.UpgradeEvent'']
       = Inr True"
    by (simp add: is_allowed_type_def dict_get_def)
  from main_send_result [where env = scenario_environ and rt = ?rt,
         OF attrs_A scenario_environ_url data_A b64 utf8 allowed_A create_slack_message_total]
  show ?thesis by simp
qed

text \<open>
  The claim as the specification words it (a non-success status from the destination makes
  the invocation fail) does not hold: with a \<open>send\<close> that returns a response of status 500
  the allowed event of scenario A is sent once and the invocation completes.
\<close>

theorem main_send_result_counterexample:
  "webhook_send (scenario_runtime \<lparr>status_code = 500, body = ''invalid_payload''\<rparr>)
      ''https://hooks.slack.com/services/T0/B0/X0'' ''Node pool upgraded''
     = Inr \<lparr>status_code = 500, body = ''invalid_payload''\<rparr>
   \<and> length (webhook_sends
        (trace (main (scenario_runtime \<lparr>status_code = 500, body = ''invalid_payload''\<rparr>)
           scenario_environ scenario_A))) = 1
   \<and> outcome (main (scenario_runtime \<lparr>status_code = 500, body = ''invalid_payload''\<rparr>)
        scenario_environ scenario_A) = Inr ()"
proof -
  let ?rt = "scenario_runtime \<lparr>status_code = 500, body = ''invalid_payload''\<rparr>"
  let ?attrs_A = "[(''type_url'', ''type.googleapis.com/google.container.v1beta1.UpgradeEvent'')]"
  have attrs_A: "ev_attributes scenario_A = Some ?attrs_A" by (simp add: scenario_A_def)
  have data_A: "ev_data scenario_A = Some ''Tm9kZSBwb29sIHVwZ3JhZGVk''"
    by (simp add: scenario_A_def)
  have allowed_A:
    "is_allowed_type ?attrs_A [''type.googleapis.com/google.container.v1beta1.UpgradeEvent'']
       = Inr True"
    by (simp add: is_allowed_type_def dict_get_def)
  note run = main_decoded [where env = scenario_environ and rt = ?rt,
      OF attrs_A scenario_environ_url data_A scenario_b64decode scenario_utf8_decode]
  show ?thesis
    by (simp add: run allowed_A run_simps create_slack_message_total scenario_webhook_send)
qed


text \<open>
  For the steps of a run whose result is not known, by cases on the result.
\<close>

lemma trace_and_then_perform:
  "trace (and_then (perform a r) f) =
     a # (case r of Inl e \<Rightarrow> [] | Inr x \<Rightarrow> trace (f x))"
  by (cases r) (simp_all add: run_simps)

lemma filter_calls_of_main:
  "filter is_filter (trace (main rt env ev)) = []
   \<or> (\<exists>pubsub_attributes.
        filter is_filter (trace (main rt env ev)) =
          [IsAllowedType pubsub_attributes
             [''type.googleapis.com/google.container.v1beta1.UpgradeEvent'']])"
  by (simp add: main_def trace_and_then_perform trace_return_none subscript_def Let_def
      split: option.splits sum.splits)

text \<open>
  C8. Whatever the runtime, the environment and the event, a call of the filter by \<open>main\<close>
  passes the same allow-list: the list of length one whose entry is the string
  \<open>type.googleapis.com/google.container.v1beta1.UpgradeEvent\<close>.
\<close>

theorem main_allow_list_fixed:
  assumes "IsAllowedType pubsub_attributes allowed_type_urls \<in> set (trace (main rt env ev))"
  shows "allowed_type_urls = [''type.googleapis.com/google.container.v1beta1.UpgradeEvent'']
       \<and> length allowed_type_urls = 1"
proof -
  let ?calls = "filter is_filter (trace (main rt env ev))"
  from assms have mem: "IsAllowedType pubsub_attributes allowed_type_urls \<in> set ?calls"
    by simp
  from filter_calls_of_main [of rt env ev] show ?thesis
  proof
    assume "?calls = []"
    with mem show ?thesis by (simp only: list.set empty_iff)
  next
    assume "\<exists>a. ?calls =
      [IsAllowedType a [''type.googleapis.com/google.container.v1beta1.UpgradeEvent'']]"
    then obtain a where "?calls =
      [IsAllowedType a [''type.googleapis.com/google.container.v1beta1.UpgradeEvent'']]" ..
    with mem
    have "IsAllowedType pubsub_attributes allowed_type_urls \<in>
      set [IsAllowedType a [''type.googleapis.com/google.container.v1beta1.UpgradeEvent'']]"
      by (simp only:)
    then show ?thesis by simp
  qed
qed

theorem main_allow_list_fixed_witness:
  "IsAllowedType [(''type_url'', ''some.other.Event'')]
      [''type.googleapis.com/google.container.v1beta1.UpgradeEvent'']
     \<in> set (trace (main (scenario_runtime \<lparr>status_code = 200, body = ''ok''\<rparr>)
                scenario_environ scenario_B))
   \<and> length [''type.googleapis.com/google.container.v1beta1.UpgradeEvent''] = 1"
proof -
  let ?rt = "scenario_runtime \<lparr>status_code = 200, body = ''ok''\<rparr>"
  have attrs_B: "ev_attributes scenario_B = Some [(''type_url'', ''some.other.Event'')]"
    by (simp add: scenario_B_def)
  have data_B: "ev_data scenario_B = Some ''Tm9kZSBwb29sIHVwZ3JhZGVk''"
    by (simp add: scenario_B_def)
  have called:
    "IsAllowedType [(''type_url'', ''some.other.Event'')]
        [''type.googleapis.com/google.container.v1beta1.UpgradeEvent'']
       \<in> set (trace (main ?rt scenario_environ scenario_B))"
    by (simp add: main_decoded(2) [where env = scenario_environ and rt = ?rt,
          OF attrs_B scenario_environ_url data_B scenario_b64decode scenario_utf8_decode]
        trace_and_then_perform)
  from main_allow_list_fixed [OF called] called show ?thesis by simp
qed


text \<open>
  Whatever the runtime, a decoder that raises makes the invocation fail with nothing sent;
  the error is the decoder's once the two lookups before it have succeeded.
\<close>

lemma main_decode_raises:
  assumes "ev_data ev = Some encoded"
    and "b64decode rt encoded = Inl e
         \<or> (\<exists>decoded. b64decode rt encoded = Inr decoded \<and> utf8_decode rt decoded = Inl e)"
  shows "outcome (main rt env ev) =
           Inl (case ev_attributes ev of
                  None \<Rightarrow> KeyError ''attributes''
                | Some pubsub_attributes \<Rightarrow>
                    (case env ''SLACK_WEBHOOK_URL'' of
                       None \<Rightarrow> KeyError ''SLACK_WEBHOOK_URL''
                     | Some slack_url \<Rightarrow> e))"
    and "webhook_sends (trace (main rt env ev)) = []"
  using assms by (auto simp add: main_def run_simps Let_def split: option.splits)

text \<open>
  C7, as the code has it. The runtime decodes as Python does: \<open>base64.b64decode\<close> without
  validation, then a strict UTF-8 decoder. When the \<open>data\<close> of an event is rejected by
  \<open>base64.b64decode\<close>, or decodes to bytes that are not UTF-8, the invocation fails and
  nothing is sent. The error is the decode error when the event carries \<open>attributes\<close> and
  \<open>SLACK_WEBHOOK_URL\<close> is set; otherwise it is the \<open>KeyError\<close> of the earlier lookup, which
  is evaluated before the payload. Such \<open>data\<close> is never a valid transit encoding of UTF-8
  text, and what \<open>base64.b64decode\<close> rejects never has the form of base64.
\<close>

theorem main_undecodable_data:
  assumes "b64decode rt = base64_b64decode"
    and "\<forall>bs. \<not> valid_utf8 bs \<longrightarrow> utf8_decode rt bs = Inl UnicodeDecodeError"
    and "ev_data ev = Some encoded"
    and "base64_b64decode encoded = Inl e
         \<or> (\<exists>decoded. base64_b64decode encoded = Inr decoded \<and> \<not> valid_utf8 decoded
               \<and> e = UnicodeDecodeError)"
  shows "outcome (main rt env ev) =
           Inl (case ev_attributes ev of
                  None \<Rightarrow> KeyError ''attributes''
                | Some pubsub_attributes \<Rightarrow>
                    (case env ''SLACK_WEBHOOK_URL'' of
                       None \<Rightarrow> KeyError ''SLACK_WEBHOOK_URL''
                     | Some slack_url \<Rightarrow> e))
       \<and> webhook_sends (trace (main rt env ev)) = []
       \<and> \<not> valid_transit_encoding encoded
       \<and> (base64_b64decode encoded = Inl e \<longrightarrow> \<not> valid_base64 encoded)"
proof -
  from assms(1,2,4)
  have raises: "b64decode rt encoded = Inl e
         \<or> (\<exists>decoded. b64decode rt encoded = Inr decoded \<and> utf8_decode rt decoded = Inl e)"
    by auto
  from assms(4) have "\<not> valid_transit_encoding encoded"
  proof
    assume "base64_b64decode encoded = Inl e"
    then show ?thesis by (simp add: valid_transit_encoding_def)
  next
    assume "\<exists>decoded. base64_b64decode encoded = Inr decoded \<and> \<not> valid_utf8 decoded
               \<and> e = UnicodeDecodeError"
    then show ?thesis by (auto simp add: valid_transit_encoding_def)
  qed
  with main_decode_raises [OF assms(3) raises, of env] base64_b64decode_rejects_invalid [of encoded e]
  show ?thesis by simp
qed

theorem main_undecodable_data_witness:
  "outcome (main (scenario_runtime \<lparr>status_code = 200, body = ''ok''\<rparr>) scenario_environ
      \<lparr>ev_attributes = ev_attributes scenario_A, ev_data = Some ''a''\<rparr>) = Inl BinasciiError
   \<and> webhook_sends
        (trace (main (scenario_runtime \<lparr>status_code = 200, body = ''ok''\<rparr>) scenario_environ
           \<lparr>ev_attributes = ev_attributes scenario_A, ev_data = Some ''a''\<rparr>)) = []
   \<and> outcome (main (scenario_runtime \<lparr>status_code = 200, body = ''ok''\<rparr>) scenario_environ
        \<lparr>ev_attributes = ev_attributes scenario_A, ev_data = Some ''/w==''\<rparr>)
       = Inl UnicodeDecodeError
   \<and> webhook_sends
        (trace (main (scenario_runtime \<lparr>status_code = 200, body = ''ok''\<rparr>) scenario_environ
           \<lparr>ev_attributes = ev_attributes scenario_A, ev_data = Some ''/w==''\<rparr>)) = []"
proof -
  let ?rt = "scenario_runtime \<lparr>status_code = 200, body = ''ok''\<rparr>"
  let ?ev1 = "\<lparr>ev_attributes = ev_attributes scenario_A, ev_data = Some ''a''\<rparr>"
  let ?ev2 = "\<lparr>ev_attributes = ev_attributes scenario_A, ev_data = Some ''/w==''\<rparr>"
  have d1: "ev_data ?ev1 = Some ''a''" by simp
  have f1: "base64_b64decode ''a'' = Inl BinasciiError
            \<or> (\<exists>decoded. base64_b64decode ''a'' = Inr decoded \<and> \<not> valid_utf8 decoded
                  \<and> BinasciiError = UnicodeDecodeError)"
    by (simp add: base64_b64decode_one_character)
  have d2: "ev_data ?ev2 = Some ''/w==''" by simp
  have "\<not> valid_utf8 [0xFF]" by simp
  then have f2: "base64_b64decode ''/w=='' = Inl UnicodeDecodeError
            \<or> (\<exists>decoded. base64_b64decode ''/w=='' = Inr decoded \<and> \<not> valid_utf8 decoded
                  \<and> UnicodeDecodeError = UnicodeDecodeError)"
    by (simp add: base64_b64decode_byte_FF)
  from main_undecodable_data [where env = scenario_environ and rt = ?rt,
         OF scenario_b64decode_is_python scenario_utf8_decode_strict d1 f1]
       main_undecodable_data [where env = scenario_environ and rt = ?rt,
         OF scenario_b64decode_is_python scenario_utf8_decode_strict d2 f2]
  show ?thesis by (simp add: scenario_A_def scenario_environ_def)
qed

text \<open>
  The claim as the specification words it (every event whose \<open>data\<close> is not a valid
  encoding fails with a decode error, and nothing is sent) fails twice over.

  The string \<open>!!!!\<close> is not base64, yet \<open>base64.b64decode\<close>, called without validation,
  skips its four characters and returns no bytes, which decode to the empty text: the
  allowed event of scenario A with this \<open>data\<close> is formatted and sent, and the invocation
  completes.

  When \<open>SLACK_WEBHOOK_URL\<close> is absent, an event with attributes and the payload \<open>a\<close>, which
  the decoder rejects, fails with the \<open>KeyError\<close> of the environment lookup, before the
  decoder is called.
\<close>

theorem main_undecodable_data_counterexample:
  "\<not> valid_base64 ''!!!!''
   \<and> \<not> valid_transit_encoding ''!!!!''
   \<and> outcome (main (scenario_runtime \<lparr>status_code = 200, body = ''ok''\<rparr>) scenario_environ
        \<lparr>ev_attributes = ev_attributes scenario_A, ev_data = Some ''!!!!''\<rparr>) = Inr ()
   \<and> webhook_sends
        (trace (main (scenario_runtime \<lparr>status_code = 200, body = ''ok''\<rparr>) scenario_environ
           \<lparr>ev_attributes = ev_attributes scenario_A, ev_data = Some ''!!!!''\<rparr>)) =
       [(''https://hooks.slack.com/services/T0/B0/X0'',
         [CHR 0x0A] @ ''```'' @ [CHR 0x0A, CHR 0x09] @
         ''type_url: type.googleapis.com/google.container.v1beta1.UpgradeEvent'' @
         [CHR 0x0A] @ ''```'')]
   \<and> b64decode (scenario_runtime \<lparr>status_code = 200, body = ''ok''\<rparr>) ''a''
       = Inl BinasciiError
   \<and> outcome (main (scenario_runtime \<lparr>status_code = 200, body = ''ok''\<rparr>) Map.empty
        \<lparr>ev_attributes = Some [(''type_url'', ''some.other.Event'')], ev_data = Some ''a''\<rparr>)
       = Inl (KeyError ''SLACK_WEBHOOK_URL'')
   \<and> filter is_decode
        (trace (main (scenario_runtime \<lparr>status_code = 200, body = ''ok''\<rparr>) Map.empty
           \<lparr>ev_attributes = Some [(''type_url'', ''some.other.Event'')],
             ev_data = Some ''a''\<rparr>)) = []"
proof -
  let ?rt = "scenario_runtime \<lparr>status_code = 200, body = ''ok''\<rparr>"
  let ?attrs_A = "[(''type_url'', ''type.googleapis.com/google.container.v1beta1.UpgradeEvent'')]"
  let ?ev = "\<lparr>ev_attributes = ev_attributes scenario_A, ev_data = Some ''!!!!''\<rparr>"
  have invalid: "\<not> valid_base64 ''!!!!''" by code_simp
  then have invalid': "\<not> valid_transit_encoding ''!!!!''"
    by (simp add: valid_transit_encoding_def)
  have attrs: "ev_attributes ?ev = Some ?attrs_A" by (simp add: scenario_A_def)
  have payload: "ev_data ?ev = Some ''!!!!''" by simp
  have b64: "b64decode ?rt ''!!!!'' = Inr []"
    by (simp only: scenario_b64decode_is_python base64_b64decode_no_alphabet)
  have utf8: "utf8_decode ?rt [] = Inr ''''" by (simp add: scenario_runtime_def)
  have allowed:
    "is_allowed_type ?attrs_A [''type.googleapis.com/google.container.v1beta1.UpgradeEvent'']
       = Inr True"
    by (simp add: is_allowed_type_def dict_get_def)
  note run = main_decoded [where env = scenario_environ and rt = ?rt,
      OF attrs scenario_environ_url payload b64 utf8]
  have sent: "outcome (main ?rt scenario_environ ?ev) = Inr ()"
    by (simp add: run allowed run_simps create_slack_message_total scenario_webhook_send)
  have message: "webhook_sends (trace (main ?rt scenario_environ ?ev)) =
       [(''https://hooks.slack.com/services/T0/B0/X0'',
         [CHR 0x0A] @ ''```'' @ [CHR 0x0A, CHR 0x09] @
         ''type_url: type.googleapis.com/google.container.v1beta1.UpgradeEvent'' @
         [CHR 0x0A] @ ''```'')]"
    by (simp add: run allowed run_simps create_slack_message_total scenario_webhook_send
        dict_keys_def dict_get_def)
  have no_url: "outcome (main ?rt Map.empty
        \<lparr>ev_attributes = Some [(''type_url'', ''some.other.Event'')], ev_data = Some ''a''\<rparr>)
       = Inl (KeyError ''SLACK_WEBHOOK_URL'')
     \<and> filter is_decode
        (trace (main ?rt Map.empty
           \<lparr>ev_attributes = Some [(''type_url'', ''some.other.Event'')],
             ev_data = Some ''a''\<rparr>)) = []"
    by (simp add: main_def run_simps Let_def)
  from invalid invalid' sent message scenario_b64decode_rejects [of "\<lparr>status_code = 200, body = ''ok''\<rparr>"] no_url
  show ?thesis by (simp only: simp_thms)
qed

end
